theory Spec2Isabelle
  imports Complex_Main
begin

section \<open>JavaScript numbers\<close>

text \<open>
  The values of the type Number: not-a-number, the two infinities and the finite doubles,
  a finite double being the real number it stands for (the sign of zero is not modelled).
  Comparisons, negation and \<open>Math.abs\<close> are exact on doubles and are defined here. The
  four arithmetic operators round their exact result to a double; the rounding is a
  parameter of the model (see the environment below), so nothing is assumed about it.
\<close>

datatype jsnum = NaN | NegInf | Fin real | PosInf

fun isNaN :: "jsnum \<Rightarrow> bool" where
  "isNaN NaN = True"
| "isNaN _ = False"

text \<open>\<open>a < b\<close>; every comparison with \<open>NaN\<close> is false.\<close>

fun js_lt :: "jsnum \<Rightarrow> jsnum \<Rightarrow> bool" where
  "js_lt NaN _ = False"
| "js_lt _ NaN = False"
| "js_lt _ NegInf = False"
| "js_lt NegInf _ = True"
| "js_lt PosInf _ = False"
| "js_lt (Fin a) PosInf = True"
| "js_lt (Fin a) (Fin b) = (a < b)"

text \<open>\<open>a > b\<close>.\<close>

definition js_gt :: "jsnum \<Rightarrow> jsnum \<Rightarrow> bool" where
  "js_gt a b = js_lt b a"

text \<open>\<open>a === b\<close> on two numbers: \<open>NaN\<close> is not equal to itself.\<close>

definition js_seq :: "jsnum \<Rightarrow> jsnum \<Rightarrow> bool" where
  "js_seq a b = (if isNaN a then False else a = b)"

fun js_neg :: "jsnum \<Rightarrow> jsnum" where
  "js_neg NaN = NaN"
| "js_neg NegInf = PosInf"
| "js_neg PosInf = NegInf"
| "js_neg (Fin a) = Fin (- a)"

text \<open>\<open>Math.abs(a)\<close>.\<close>

fun js_abs :: "jsnum \<Rightarrow> jsnum" where
  "js_abs NaN = NaN"
| "js_abs (Fin a) = Fin \<bar>a\<bar>"
| "js_abs _ = PosInf"

text \<open>The infinity with the sign of a non-zero real.\<close>

definition inf_of_sign :: "real \<Rightarrow> jsnum" where
  "inf_of_sign a = (if a = 0 then NaN else if 0 < a then PosInf else NegInf)"

section \<open>The environment of the program\<close>

text \<open>
  What the language gives the program is a parameter of the model: \<open>parseFloat\<close> on a
  string, \<open>new Date(s)\<close> (the time in milliseconds, \<open>None\<close> for an invalid date),
  \<open>x.toFixed(2)\<close>, the conversion of a number to a string in a template literal,
  \<open>Math.pow\<close>, \<open>Math.sqrt\<close>, and \<open>rounded\<close>, the rounding of the exact real result of an
  arithmetic operator to a double (an infinity when the result overflows).
\<close>

record js =
  parseFloat :: "string \<Rightarrow> jsnum"
  newDate :: "string \<Rightarrow> int option"
  toFixed2 :: "jsnum \<Rightarrow> string"
  numToString :: "jsnum \<Rightarrow> string"
  rounded :: "real \<Rightarrow> jsnum"
  mathPow :: "jsnum \<Rightarrow> jsnum \<Rightarrow> jsnum"
  mathSqrt :: "jsnum \<Rightarrow> jsnum"

text \<open>\<open>a + b\<close>: the rounded sum of two finite numbers; the sum of opposite infinities is
  \<open>NaN\<close>.\<close>

fun js_add :: "js \<Rightarrow> jsnum \<Rightarrow> jsnum \<Rightarrow> jsnum" where
  "js_add J NaN _ = NaN"
| "js_add J _ NaN = NaN"
| "js_add J (Fin a) (Fin b) = rounded J (a + b)"
| "js_add J (Fin a) b = b"
| "js_add J a (Fin b) = a"
| "js_add J PosInf PosInf = PosInf"
| "js_add J NegInf NegInf = NegInf"
| "js_add J PosInf NegInf = NaN"
| "js_add J NegInf PosInf = NaN"

text \<open>\<open>a - b\<close>.\<close>

definition js_sub :: "js \<Rightarrow> jsnum \<Rightarrow> jsnum \<Rightarrow> jsnum" where
  "js_sub J a b = js_add J a (js_neg b)"

text \<open>\<open>a * b\<close>; zero times an infinity is \<open>NaN\<close>.\<close>

fun js_mul :: "js \<Rightarrow> jsnum \<Rightarrow> jsnum \<Rightarrow> jsnum" where
  "js_mul J NaN _ = NaN"
| "js_mul J _ NaN = NaN"
| "js_mul J (Fin a) (Fin b) = rounded J (a * b)"
| "js_mul J (Fin a) PosInf = inf_of_sign a"
| "js_mul J (Fin a) NegInf = inf_of_sign (- a)"
| "js_mul J PosInf (Fin b) = inf_of_sign b"
| "js_mul J NegInf (Fin b) = inf_of_sign (- b)"
| "js_mul J PosInf PosInf = PosInf"
| "js_mul J NegInf NegInf = PosInf"
| "js_mul J PosInf NegInf = NegInf"
| "js_mul J NegInf PosInf = NegInf"

text \<open>
  \<open>a / b\<close>. A finite number over zero is an infinity (of the sign of the numerator, the
  zero being taken as positive) and zero over zero is \<open>NaN\<close>; the program only ever
  divides by the length of a non-empty array.
\<close>

fun js_div :: "js \<Rightarrow> jsnum \<Rightarrow> jsnum \<Rightarrow> jsnum" where
  "js_div J NaN _ = NaN"
| "js_div J _ NaN = NaN"
| "js_div J (Fin a) (Fin b) = (if b = 0 then inf_of_sign a else rounded J (a / b))"
| "js_div J (Fin a) b = Fin 0"
| "js_div J PosInf (Fin b) = (if 0 \<le> b then PosInf else NegInf)"
| "js_div J NegInf (Fin b) = (if 0 \<le> b then NegInf else PosInf)"
| "js_div J a b = NaN"

text \<open>
  The clock: \<open>clk k\<close> is what the \<open>k\<close>-th reading of the current time during one call of
  \<open>processData\<close> returns (\<open>Date.now()\<close> and \<open>new Date()\<close> both read it).
\<close>

type_synonym clock = "nat \<Rightarrow> int"

section \<open>Data\<close>

text \<open>A row of the parsed CSV: Papa Parse with \<open>header: true\<close> gives an object from column
  names to strings, a missing column being \<open>undefined\<close>.\<close>

type_synonym row = "string \<rightharpoonup> string"

datatype status = Normal | Low | Offline

text \<open>The objects of \<open>parsedData\<close>; \<open>p_id\<close> is the field \<open>_id\<close> and \<open>p_when\<close> the field
  \<open>when\<close>, a date as milliseconds.\<close>

record panel =
  p_id :: int
  id_panel :: string
  powerOut :: jsnum
  voltage :: jsnum
  panelStatus :: status
  p_when :: int

text \<open>The objects of \<open>newAlerts\<close>: fields \<open>_id\<close>, \<open>id_panel\<close>, \<open>alertMessage\<close>,
  \<open>severityLevel\<close>, \<open>when\<close>.\<close>

record alert =
  a_id :: int
  a_panel :: string
  alertMessage :: string
  severityLevel :: string
  a_when :: int

text \<open>A custom rule: fields \<open>_id\<close>, \<open>metric\<close>, \<open>condition\<close>, \<open>value\<close>, \<open>severity\<close>,
  \<open>message\<close>. \<open>saveRule\<close> stores \<open>value\<close> as a number.\<close>

record rule =
  r_id :: int
  metric :: string
  condition :: string
  r_value :: jsnum
  severity :: string
  message :: string

text \<open>The field \<open>value\<close> of the rule form is the string of the input element after
  \<open>handleRuleChange\<close> and the number of the rule after \<open>editRule\<close>.\<close>

datatype formval = VStr string | VNum jsnum

record ruleForm =
  f_metric :: string
  f_condition :: string
  f_value :: formval
  f_severity :: string
  f_message :: string
  editId :: "int option"

text \<open>The state of the component that the modelled functions read and write.\<close>

record app =
  panels :: "panel list"
  alerts :: "alert list"
  rules :: "rule list"
  powerThreshold :: jsnum
  voltageThreshold :: jsnum
  form :: ruleForm

text \<open>The counter \<open>tempId\<close> of one call of \<open>processData\<close> and the number of readings of
  the clock made so far.\<close>

record pass =
  tempId :: nat
  reads :: nat

section \<open>\<open>processData\<close>\<close>

text \<open>\<open>Date.now() + tempId++\<close>.\<close>

definition freshId :: "clock \<Rightarrow> pass \<Rightarrow> int \<times> pass" where
  "freshId clk s =
     (clk (reads s) + int (tempId s), \<lparr>tempId = tempId s + 1, reads = reads s + 1\<rparr>)"

text \<open>\<open>new Date()\<close>.\<close>

definition currentDate :: "clock \<Rightarrow> pass \<Rightarrow> int \<times> pass" where
  "currentDate clk s = (clk (reads s), s\<lparr>reads := reads s + 1\<rparr>)"

text \<open>\<open>array.map(f)\<close> for an \<open>f\<close> that reads the clock and the counter.\<close>

fun mapS :: "('a \<Rightarrow> pass \<Rightarrow> 'b \<times> pass) \<Rightarrow> 'a list \<Rightarrow> pass \<Rightarrow> 'b list \<times> pass" where
  "mapS f [] s = ([], s)"
| "mapS f (x # xs) s =
     (let (y, s1) = f x s; (ys, s2) = mapS f xs s1 in (y # ys, s2))"

text \<open>A column of a row in a boolean context: \<open>undefined\<close> and the empty string are
  falsy, every other string is truthy.\<close>

definition truthyField :: "row \<Rightarrow> string \<Rightarrow> bool" where
  "truthyField r k = (case r k of None \<Rightarrow> False | Some v \<Rightarrow> v \<noteq> [])"

text \<open>The predicate of the \<open>filter\<close>:
  \<open>row.id_panel && row.power && row.voltage && row.timestamp\<close>.\<close>

definition validRow :: "row \<Rightarrow> bool" where
  "validRow r = (truthyField r ''id_panel'' \<and> truthyField r ''power''
     \<and> truthyField r ''voltage'' \<and> truthyField r ''timestamp'')"

text \<open>A column read as a string. The \<open>map\<close> reads the columns of rows that passed the
  filter only, where all four are strings; an absent column reads as the empty string.\<close>

definition fieldOf :: "row \<Rightarrow> string \<Rightarrow> string" where
  "fieldOf r k = (case r k of None \<Rightarrow> [] | Some v \<Rightarrow> v)"

text \<open>The status computed from the parsed power (the \<open>if\<close>/\<open>else if\<close> of the \<open>map\<close>).\<close>

definition classify :: "jsnum \<Rightarrow> jsnum \<Rightarrow> status" where
  "classify pw pt =
     (if isNaN pw \<or> js_seq pw (Fin 0) then Offline
      else if js_lt pw pt then Low
      else Normal)"

text \<open>The body of the \<open>map\<close> over the rows. The object literal is evaluated in the order
  of its fields: \<open>_id\<close> reads the clock first, \<open>when\<close> reads it again for an invalid date.\<close>

definition mkPanel :: "js \<Rightarrow> clock \<Rightarrow> jsnum \<Rightarrow> row \<Rightarrow> pass \<Rightarrow> panel \<times> pass" where
  "mkPanel J clk pt r s =
     (let pw = parseFloat J (fieldOf r ''power'');
          volt = parseFloat J (fieldOf r ''voltage'');
          timestamp = newDate J (fieldOf r ''timestamp'');
          st = classify pw pt;
          (i, s1) = freshId clk s;
          (w, s2) = (case timestamp of None \<Rightarrow> currentDate clk s1 | Some t \<Rightarrow> (t, s1))
      in (\<lparr>p_id = i,
           id_panel = fieldOf r ''id_panel'',
           powerOut = (if \<not> isNaN pw then pw else Fin 0),
           voltage = (if \<not> isNaN volt then volt else Fin 0),
           panelStatus = st,
           p_when = w\<rparr>, s2))"

definition parsedData :: "js \<Rightarrow> clock \<Rightarrow> jsnum \<Rightarrow> row list \<Rightarrow> pass \<Rightarrow> panel list \<times> pass" where
  "parsedData J clk pt data s = mapS (mkPanel J clk pt) (filter validRow data) s"

subsection \<open>Mean and standard deviation\<close>

definition powerOutputs :: "panel list \<Rightarrow> jsnum list" where
  "powerOutputs ps = filter (\<lambda>val. \<not> isNaN val \<and> js_gt val (Fin 0)) (map powerOut ps)"

definition meanPower :: "js \<Rightarrow> panel list \<Rightarrow> jsnum" where
  "meanPower J ps =
     (if length (powerOutputs ps) > 0
      then js_div J (foldl (\<lambda>sum val. js_add J sum val) (Fin 0) (powerOutputs ps))
             (Fin (real (length (powerOutputs ps))))
      else Fin 0)"

definition stdDevPower :: "js \<Rightarrow> panel list \<Rightarrow> jsnum" where
  "stdDevPower J ps =
     (if length (powerOutputs ps) > 0
      then mathSqrt J (js_div J
             (foldl (\<lambda>sum val. js_add J sum (mathPow J (js_sub J val (meanPower J ps)) (Fin 2)))
                (Fin 0) (powerOutputs ps))
             (Fin (real (length (powerOutputs ps)))))
      else Fin 0)"

subsection \<open>Alerts\<close>

text \<open>\<open>alerts.push({_id: Date.now() + tempId++, id_panel: p.id_panel, alertMessage: msg,
  severityLevel: sev, when: p.when})\<close> on the local array \<open>alerts\<close>.\<close>

definition push :: "clock \<Rightarrow> panel \<Rightarrow> string \<Rightarrow> string \<Rightarrow> alert list \<times> pass \<Rightarrow> alert list \<times> pass" where
  "push clk p msg sev acc =
     (let (i, s1) = freshId clk (snd acc)
      in (fst acc @ [\<lparr>a_id = i, a_panel = id_panel p, alertMessage = msg,
                       severityLevel = sev, a_when = p_when p\<rparr>], s1))"

definition offlineMessage :: "panel \<Rightarrow> string" where
  "offlineMessage p = ''Panel '' @ id_panel p @ '' is offline: Potential theft detected''"

definition lowPowerMessage :: "js \<Rightarrow> panel \<Rightarrow> string" where
  "lowPowerMessage J p =
     ''Panel '' @ id_panel p @ '' has low power: '' @ toFixed2 J (powerOut p) @ ''W''"

definition lowVoltageMessage :: "js \<Rightarrow> panel \<Rightarrow> string" where
  "lowVoltageMessage J p =
     ''Panel '' @ id_panel p @ '' has low voltage: '' @ toFixed2 J (voltage p) @ ''V''"

definition anomalyMessage :: "js \<Rightarrow> panel \<Rightarrow> string" where
  "anomalyMessage J p =
     ''Anomaly in '' @ id_panel p @ '': Power '' @ toFixed2 J (powerOut p)
       @ ''W deviates significantly''"

text \<open>The condition of the anomaly alert.\<close>

definition anomalous :: "js \<Rightarrow> jsnum \<Rightarrow> jsnum \<Rightarrow> panel \<Rightarrow> bool" where
  "anomalous J mean sd p =
     (js_gt mean (Fin 0) \<and> js_gt sd (Fin 0)
      \<and> js_gt (js_abs (js_sub J (powerOut p) mean)) (js_mul J (Fin 2) sd))"

text \<open>The part of the \<open>map\<close> over \<open>parsedData\<close> under the comment \<open>Default rules\<close>.\<close>

definition defaultRules ::
  "js \<Rightarrow> clock \<Rightarrow> jsnum \<Rightarrow> jsnum \<Rightarrow> jsnum \<Rightarrow> panel \<Rightarrow> alert list \<times> pass \<Rightarrow> alert list \<times> pass" where
  "defaultRules J clk vt mean sd p acc =
     (let acc1 = (if panelStatus p = Offline then push clk p (offlineMessage p) ''critical'' acc
                  else if panelStatus p = Low then push clk p (lowPowerMessage J p) ''warning'' acc
                  else acc);
          acc2 = (if js_lt (voltage p) vt then push clk p (lowVoltageMessage J p) ''warning'' acc1
                  else acc1)
      in if anomalous J mean sd p then push clk p (anomalyMessage J p) ''warning'' acc2
         else acc2)"

text \<open>\<open>parseFloat\<close> of a number converts the number to a string and parses that string,
  which gives the number back.\<close>

definition parseFloatNum :: "jsnum \<Rightarrow> jsnum" where
  "parseFloatNum x = x"

text \<open>The variable \<open>conditionMet\<close> after the three tests.\<close>

definition conditionMet :: "rule \<Rightarrow> panel \<Rightarrow> bool" where
  "conditionMet r p =
     (let val = (if metric r = ''power'' then powerOut p else voltage p)
      in if condition r = ''<'' \<and> js_lt val (parseFloatNum (r_value r)) then True
         else if condition r = ''>'' \<and> js_gt val (parseFloatNum (r_value r)) then True
         else if condition r = ''='' \<and> js_seq val (parseFloatNum (r_value r)) then True
         else False)"

text \<open>\<open>rule.message || `Custom alert: ...`\<close>.\<close>

definition ruleMessage :: "js \<Rightarrow> rule \<Rightarrow> string" where
  "ruleMessage J r =
     (if message r \<noteq> [] then message r
      else ''Custom alert: '' @ metric r @ '' '' @ condition r @ '' '' @ numToString J (r_value r))"

text \<open>\<open>rules.forEach(...)\<close>.\<close>

definition customRules :: "js \<Rightarrow> clock \<Rightarrow> rule list \<Rightarrow> panel \<Rightarrow> alert list \<times> pass \<Rightarrow> alert list \<times> pass" where
  "customRules J clk rs p acc =
     foldl (\<lambda>a r. if conditionMet r p then push clk p (ruleMessage J r) (severity r) a else a)
       acc rs"

text \<open>The body of the \<open>map\<close> over \<open>parsedData\<close>: the alerts of one panel.\<close>

definition panelAlerts ::
  "js \<Rightarrow> clock \<Rightarrow> rule list \<Rightarrow> jsnum \<Rightarrow> jsnum \<Rightarrow> jsnum \<Rightarrow> panel \<Rightarrow> pass \<Rightarrow> alert list \<times> pass" where
  "panelAlerts J clk rs vt mean sd p s =
     customRules J clk rs p (defaultRules J clk vt mean sd p ([], s))"

text \<open>\<open>newAlerts\<close>: the \<open>map\<close> and the \<open>flat\<close>.\<close>

definition newAlerts ::
  "js \<Rightarrow> clock \<Rightarrow> rule list \<Rightarrow> jsnum \<Rightarrow> panel list \<Rightarrow> pass \<Rightarrow> alert list \<times> pass" where
  "newAlerts J clk rs vt ps s =
     (let (ass, s1) = mapS (panelAlerts J clk rs vt (meanPower J ps) (stdDevPower J ps)) ps s
      in (concat ass, s1))"

text \<open>The whole function, on the state of the component. The sounds played and the line
  logged to the console are left out.\<close>

definition processData :: "js \<Rightarrow> clock \<Rightarrow> app \<Rightarrow> row list \<Rightarrow> app" where
  "processData J clk st data =
     (let (ps, s1) = parsedData J clk (powerThreshold st) data \<lparr>tempId = 0, reads = 0\<rparr>;
          (as, s2) = newAlerts J clk (rules st) (voltageThreshold st) ps s1
      in st\<lparr>panels := ps, alerts := as\<rparr>)"

section \<open>The rule form\<close>

text \<open>The form after a save and at the start.\<close>

definition blankForm :: ruleForm where
  "blankForm = \<lparr>f_metric = ''power'', f_condition = ''<'', f_value = VStr [],
     f_severity = ''warning'', f_message = [], editId = None\<rparr>"

text \<open>\<open>ruleForm.value\<close> in a boolean context: the empty string, \<open>0\<close> and \<open>NaN\<close> are falsy.\<close>

fun truthyVal :: "formval \<Rightarrow> bool" where
  "truthyVal (VStr v) = (v \<noteq> [])"
| "truthyVal (VNum x) = (\<not> isNaN x \<and> x \<noteq> Fin 0)"

text \<open>\<open>parseFloat(ruleForm.value)\<close>.\<close>

fun parseFloatVal :: "js \<Rightarrow> formval \<Rightarrow> jsnum" where
  "parseFloatVal J (VStr v) = parseFloat J v"
| "parseFloatVal J (VNum x) = parseFloatNum x"

text \<open>\<open>ruleForm.editId\<close> in a boolean context: \<open>null\<close> and \<open>0\<close> are falsy.\<close>

fun truthyId :: "int option \<Rightarrow> bool" where
  "truthyId None = False"
| "truthyId (Some n) = (n \<noteq> 0)"

text \<open>\<open>ruleForm.editId || Date.now()\<close>, with \<open>t\<close> the current time.\<close>

fun idOr :: "int option \<Rightarrow> int \<Rightarrow> int" where
  "idOr None t = t"
| "idOr (Some n) t = (if n \<noteq> 0 then n else t)"

text \<open>\<open>r._id === ruleForm.editId\<close>.\<close>

fun idEq :: "int \<Rightarrow> int option \<Rightarrow> bool" where
  "idEq i None = False"
| "idEq i (Some n) = (i = n)"

text \<open>The text of the \<open>alert(...)\<close> of \<open>saveRule\<close>.\<close>

definition rejection :: string where
  "rejection = ''Please enter a valid number for value and a message.''"

text \<open>\<open>saveRule\<close> at time \<open>t\<close>. The second component is the text shown to the operator by
  \<open>alert(...)\<close>, if any.\<close>

definition saveRule :: "js \<Rightarrow> int \<Rightarrow> app \<Rightarrow> app \<times> string option" where
  "saveRule J t st =
     (let f = form st
      in if \<not> truthyVal (f_value f) \<or> isNaN (parseFloatVal J (f_value f)) \<or> f_message f = []
         then (st, Some rejection)
         else
           (let newRule = \<lparr>r_id = idOr (editId f) t,
                           metric = f_metric f,
                           condition = f_condition f,
                           r_value = parseFloatVal J (f_value f),
                           severity = f_severity f,
                           message = f_message f\<rparr>
            in (st\<lparr>rules := (if truthyId (editId f)
                               then map (\<lambda>r. if idEq (r_id r) (editId f) then newRule else r) (rules st)
                               else rules st @ [newRule]),
                    form := blankForm\<rparr>, None)))"

definition editRule :: "rule \<Rightarrow> app \<Rightarrow> app" where
  "editRule r st = st\<lparr>form := \<lparr>f_metric = metric r, f_condition = condition r,
     f_value = VNum (r_value r), f_severity = severity r, f_message = message r,
     editId = Some (r_id r)\<rparr>\<rparr>"

definition deleteRule :: "int \<Rightarrow> app \<Rightarrow> app" where
  "deleteRule ruleId st = st\<lparr>rules := filter (\<lambda>r. r_id r \<noteq> ruleId) (rules st)\<rparr>"

text \<open>\<open>handleRuleChange\<close> for an event of the input or select element called \<open>name\<close> with
  the string \<open>v\<close>; the form has no element of another name.\<close>

definition handleRuleChange :: "string \<Rightarrow> string \<Rightarrow> app \<Rightarrow> app" where
  "handleRuleChange name v st =
     (let f = form st
      in st\<lparr>form :=
           (if name = ''metric'' then f\<lparr>f_metric := v\<rparr>
            else if name = ''condition'' then f\<lparr>f_condition := v\<rparr>
            else if name = ''value'' then f\<lparr>f_value := VStr v\<rparr>
            else if name = ''severity'' then f\<lparr>f_severity := v\<rparr>
            else if name = ''message'' then f\<lparr>f_message := v\<rparr>
            else f)\<rparr>)"

section \<open>What the specification says\<close>

text \<open>
  The definitions of this section follow the words of the specification, not the code.
  The theorems below compare the code with them.
\<close>

text \<open>The fields of an alert other than its id, and those other than id and time.\<close>

definition alertFields :: "alert \<Rightarrow> string \<times> string \<times> string \<times> int" where
  "alertFields a = (a_panel a, alertMessage a, severityLevel a, a_when a)"




text \<open>A column is present and non-empty.\<close>

definition present :: "row \<Rightarrow> string \<Rightarrow> bool" where
  "present r k = (\<exists>v. r k = Some v \<and> v \<noteq> [])"


text \<open>
  The reading \<open>p\<close> is the reading of the row \<open>r\<close>: the panel id of the row, its power and
  voltage parsed (0 for a value that does not parse), the status of the parsed power, and
  the parsed timestamp, or a reading of the clock when the timestamp does not parse.
\<close>

definition rowReading :: "js \<Rightarrow> clock \<Rightarrow> jsnum \<Rightarrow> row \<Rightarrow> panel \<Rightarrow> bool" where
  "rowReading J clk pt r p =
     (id_panel p = fieldOf r ''id_panel''
      \<and> powerOut p = (case parseFloat J (fieldOf r ''power'') of NaN \<Rightarrow> Fin 0 | x \<Rightarrow> x)
      \<and> voltage p = (case parseFloat J (fieldOf r ''voltage'') of NaN \<Rightarrow> Fin 0 | x \<Rightarrow> x)
      \<and> panelStatus p = classify (parseFloat J (fieldOf r ''power'')) pt
      \<and> (case newDate J (fieldOf r ''timestamp'') of
            Some t \<Rightarrow> p_when p = t
          | None \<Rightarrow> (\<exists>k. p_when p = clk k)))"

subsection \<open>Statistics\<close>

text \<open>The baseline: the powers of the batch that are valid numbers and strictly greater
  than 0.\<close>

definition baseline :: "panel list \<Rightarrow> jsnum list" where
  "baseline ps = [v \<leftarrow> map powerOut ps. \<not> isNaN v \<and> js_gt v (Fin 0)]"

text \<open>The two-sigma rule: \<open>stdDev > 0\<close> and \<open>|powerOut - mean| > 2 * stdDev\<close>.\<close>

definition spec_anomalous :: "js \<Rightarrow> jsnum \<Rightarrow> jsnum \<Rightarrow> panel \<Rightarrow> bool" where
  "spec_anomalous J mean sd p =
     (js_gt sd (Fin 0) \<and> js_gt (js_abs (js_sub J (powerOut p) mean)) (js_mul J (Fin 2) sd))"


subsection \<open>Rounding to a double\<close>

text \<open>\<open>a <= b\<close>.\<close>

definition js_le :: "jsnum \<Rightarrow> jsnum \<Rightarrow> bool" where
  "js_le a b = (js_lt a b \<or> js_seq a b)"

text \<open>
  Three facts of rounding to the nearest double, for \<open>tiny\<close> the least positive double
  (\<open>2\<close> to the power \<open>-1074\<close>) and \<open>N\<close> the number \<open>2\<close> to the power \<open>53\<close>: rounding is
  monotone, and the multiples \<open>k * tiny\<close> for \<open>k \<le> N\<close> are doubles, which rounding leaves
  as they are.
\<close>

definition doubleRounding :: "js \<Rightarrow> real \<Rightarrow> nat \<Rightarrow> bool" where
  "doubleRounding J tiny N =
     (0 < tiny
      \<and> (\<forall>x y. x \<le> y \<longrightarrow> js_le (rounded J x) (rounded J y))
      \<and> (\<forall>k. k \<le> N \<longrightarrow> rounded J (real k * tiny) = Fin (real k * tiny)))"

text \<open>The powers of the batch are doubles: a positive finite one is at least \<open>tiny\<close>.\<close>

definition doublesFrom :: "real \<Rightarrow> panel list \<Rightarrow> bool" where
  "doublesFrom tiny ps = (\<forall>p \<in> set ps. \<forall>r. powerOut p = Fin r \<longrightarrow> 0 < r \<longrightarrow> tiny \<le> r)"

subsection \<open>The alerts of a reading\<close>

text \<open>Message and severity of the alerts of a reading, by source: (a) offline, else
  (b) low power; (c) low voltage; (d) anomaly, for a reading that is anomalous (\<open>anom\<close>);
  (e) the rules that match, in the order of the rule list.\<close>

definition spec_statusAlerts :: "js \<Rightarrow> panel \<Rightarrow> (string \<times> string) list" where
  "spec_statusAlerts J p =
     (if panelStatus p = Offline then [(offlineMessage p, ''critical'')]
      else if panelStatus p = Low then [(lowPowerMessage J p, ''warning'')]
      else [])"

definition spec_voltageAlerts :: "js \<Rightarrow> jsnum \<Rightarrow> panel \<Rightarrow> (string \<times> string) list" where
  "spec_voltageAlerts J vt p =
     (if js_lt (voltage p) vt then [(lowVoltageMessage J p, ''warning'')] else [])"

definition spec_anomalyAlerts :: "js \<Rightarrow> bool \<Rightarrow> panel \<Rightarrow> (string \<times> string) list" where
  "spec_anomalyAlerts J anom p = (if anom then [(anomalyMessage J p, ''warning'')] else [])"

definition spec_ruleAlerts :: "js \<Rightarrow> rule list \<Rightarrow> panel \<Rightarrow> (string \<times> string) list" where
  "spec_ruleAlerts J rs p =
     map (\<lambda>r. (ruleMessage J r, severity r)) (filter (\<lambda>r. conditionMet r p) rs)"

text \<open>All of them in the fixed order, each with the panel id and the time of the reading.\<close>

definition spec_readingAlerts ::
  "js \<Rightarrow> rule list \<Rightarrow> jsnum \<Rightarrow> bool \<Rightarrow> panel \<Rightarrow> (string \<times> string \<times> string \<times> int) list" where
  "spec_readingAlerts J rs vt anom p =
     map (\<lambda>(msg, sev). (id_panel p, msg, sev, p_when p))
       (spec_statusAlerts J p @ spec_voltageAlerts J vt p @ spec_anomalyAlerts J anom p
          @ spec_ruleAlerts J rs p)"

section \<open>Auxiliary notions of the proofs\<close>

text \<open>The fields, id apart, of the alert of a rule for a reading.\<close>

definition ruleFields :: "js \<Rightarrow> panel \<Rightarrow> rule \<Rightarrow> string \<times> string \<times> string \<times> int" where
  "ruleFields J p r = (id_panel p, ruleMessage J r, severity r, p_when p)"

text \<open>The alerts of a reading with the anomaly test of the code.\<close>

definition codeAlerts ::
  "js \<Rightarrow> rule list \<Rightarrow> jsnum \<Rightarrow> jsnum \<Rightarrow> jsnum \<Rightarrow> panel \<Rightarrow> (string \<times> string \<times> string \<times> int) list" where
  "codeAlerts J rs vt mean sd p = spec_readingAlerts J rs vt (anomalous J mean sd p) p"

text \<open>A number that is \<open>Infinity\<close> or a finite number not below \<open>c\<close>.\<close>

definition above :: "real \<Rightarrow> jsnum \<Rightarrow> bool" where
  "above c x = (x = PosInf \<or> (\<exists>r. x = Fin r \<and> c \<le> r))"

text \<open>The ids that \<open>n\<close> successive evaluations of \<open>Date.now() + tempId++\<close> give from the
  state \<open>s\<close>, and the state after them when nothing else reads the clock.\<close>

definition idsFrom :: "clock \<Rightarrow> pass \<Rightarrow> nat \<Rightarrow> int list" where
  "idsFrom clk s n = map (\<lambda>j. clk (reads s + j) + int (tempId s + j)) [0..<n]"

definition advance :: "pass \<Rightarrow> nat \<Rightarrow> pass" where
  "advance s n = \<lparr>tempId = tempId s + n, reads = reads s + n\<rparr>"

text \<open>The alerts pushed since the state \<open>s\<close> carry exactly these ids.\<close>

definition numbered :: "clock \<Rightarrow> pass \<Rightarrow> alert list \<times> pass \<Rightarrow> bool" where
  "numbered clk s acc =
     (map a_id (fst acc) = idsFrom clk s (length (fst acc))
      \<and> snd acc = advance s (length (fst acc)))"

section \<open>Example data\<close>

text \<open>
  A concrete environment for the examples: the values of the built-in functions on the
  strings and numbers that the examples use (\<open>parseFloat\<close> of a string that is not a number
  is \<open>NaN\<close>, \<open>new Date\<close> of a string that is not a date is invalid), and a clock that
  advances by one millisecond at each reading. The numbers of the examples and the results
  of the operators on them are small integers, which are doubles: on these, rounding
  changes nothing, the square is \<open>Math.pow(x, 2)\<close> and the exact root of a square is
  \<open>Math.sqrt\<close>.
\<close>

definition exampleRounded :: "real \<Rightarrow> jsnum" where
  "exampleRounded x = Fin x"

fun examplePow :: "jsnum \<Rightarrow> jsnum \<Rightarrow> jsnum" where
  "examplePow (Fin a) (Fin b) = (if b = 2 then Fin (a * a) else NaN)"
| "examplePow _ _ = NaN"

fun exampleSqrt :: "jsnum \<Rightarrow> jsnum" where
  "exampleSqrt (Fin a) = (if a < 0 then NaN else Fin (sqrt a))"
| "exampleSqrt PosInf = PosInf"
| "exampleSqrt _ = NaN"

definition exampleParseFloat :: "string \<Rightarrow> jsnum" where
  "exampleParseFloat v =
     (if v = ''0'' then Fin 0 else if v = ''3'' then Fin 3 else if v = ''5'' then Fin 5
      else if v = ''30'' then Fin 30 else if v = ''100'' then Fin 100
      else if v = ''150'' then Fin 150 else if v = ''220'' then Fin 220
      else if v = ''500'' then Fin 500 else NaN)"

definition exampleNewDate :: "string \<Rightarrow> int option" where
  "exampleNewDate v =
     (if v = ''2024-01-01'' then Some 1704067200000
      else if v = ''2024-01-02'' then Some 1704153600000
      else if v = ''2024-01-03'' then Some 1704240000000
      else None)"

definition exampleToFixed2 :: "jsnum \<Rightarrow> string" where
  "exampleToFixed2 x =
     (if x = Fin 0 then ''0.00'' else if x = Fin 3 then ''3.00'' else if x = Fin 5 then ''5.00''
      else if x = Fin 30 then ''30.00'' else if x = Fin 150 then ''150.00''
      else if x = Fin 220 then ''220.00'' else if x = Fin 500 then ''500.00'' else ''NaN'')"

definition exampleNumToString :: "jsnum \<Rightarrow> string" where
  "exampleNumToString x = (if x = Fin 0 then ''0'' else if x = Fin 100 then ''100'' else ''NaN'')"

definition exampleJs :: js where
  "exampleJs = \<lparr>parseFloat = exampleParseFloat, newDate = exampleNewDate,
     toFixed2 = exampleToFixed2, numToString = exampleNumToString,
     rounded = exampleRounded, mathPow = examplePow, mathSqrt = exampleSqrt\<rparr>"

definition exampleClock :: clock where
  "exampleClock k = 1782000000000 + int k"

definition mkRow :: "string \<Rightarrow> string \<Rightarrow> string \<Rightarrow> string \<Rightarrow> row" where
  "mkRow i p v t = [''id_panel'' \<mapsto> i, ''power'' \<mapsto> p, ''voltage'' \<mapsto> v, ''timestamp'' \<mapsto> t]"

text \<open>The state at the start: no rule, the default thresholds 50 and 200.\<close>

definition exampleApp :: app where
  "exampleApp = \<lparr>panels = [], alerts = [], rules = [], powerThreshold = Fin 50,
     voltageThreshold = Fin 200, form = blankForm\<rparr>"

text \<open>A rule with the threshold 0, and the form after the operator has chosen the
  condition and typed the value \<open>0\<close> and a message.\<close>

definition zeroRule :: rule where
  "zeroRule = \<lparr>r_id = 1782000000000, metric = ''power'', condition = ''='', r_value = Fin 0,
     severity = ''warning'', message = ''No output''\<rparr>"

definition typedZero :: app where
  "typedZero = handleRuleChange ''message'' ''No output'' (handleRuleChange ''value'' ''0''
     (handleRuleChange ''condition'' ''='' exampleApp))"

text \<open>A valid draft whose \<open>editId\<close> is the id of no rule.\<close>

definition orphanEdit :: app where
  "orphanEdit = exampleApp\<lparr>rules := [zeroRule],
     form := \<lparr>f_metric = ''voltage'', f_condition = ''<'', f_value = VStr ''150'',
       f_severity = ''warning'', f_message = ''Voltage sag'', editId = Some 42\<rparr>\<rparr>"


text \<open>A reading with a given power, and a rule on the power.\<close>

definition testPanel :: "jsnum \<Rightarrow> panel" where
  "testPanel pw = \<lparr>p_id = 0, id_panel = ''PV001'', powerOut = pw, voltage = Fin 220,
     panelStatus = Normal, p_when = 1704067200000\<rparr>"

definition lowPowerRule :: rule where
  "lowPowerRule = \<lparr>r_id = 7, metric = ''power'', condition = ''<'', r_value = Fin 100,
     severity = ''critical'', message = ''Critical low power detected''\<rparr>"

definition highVoltageRule :: rule where
  "highVoltageRule = \<lparr>r_id = 8, metric = ''voltage'', condition = ''>'', r_value = Fin 500,
     severity = ''warning'', message = ''Voltage surge''\<rparr>"

text \<open>Batches: three panels with one rule in the store; rows of which two lack a power;
  a row whose timestamp is not a date; readings with the powers 0, 3 and 5.\<close>

definition ruleApp :: app where
  "ruleApp = exampleApp\<lparr>rules := [lowPowerRule]\<rparr>"

definition threeRows :: "row list" where
  "threeRows = [mkRow ''PV001'' ''0'' ''220'' ''2024-01-01'',
                mkRow ''PV002'' ''3'' ''150'' ''2024-01-02'',
                mkRow ''PV003'' ''5'' ''220'' ''2024-01-03'']"

definition mixedRows :: "row list" where
  "mixedRows = [mkRow ''PV001'' ''0'' ''220'' ''2024-01-01'',
                [''id_panel'' \<mapsto> ''PV002'', ''voltage'' \<mapsto> ''220'', ''timestamp'' \<mapsto> ''2024-01-02''],
                mkRow ''PV003'' [] ''220'' ''2024-01-03'',
                mkRow ''PV004'' ''500'' ''150'' ''2024-01-03'']"


definition statPanels :: "panel list" where
  "statPanels = [testPanel (Fin 0), testPanel (Fin 3), testPanel (Fin 5)]"

lemmas example_defs = exampleParseFloat_def exampleNewDate_def exampleToFixed2_def
  exampleNumToString_def exampleJs_def exampleClock_def mkRow_def exampleApp_def
  exampleRounded_def


section \<open>Numbers\<close>

lemma js_seq_zero: "js_seq pw (Fin 0) \<longleftrightarrow> pw = Fin 0"
  by (cases pw) (simp_all add: js_seq_def)

lemma isNaN_iff: "isNaN x \<longleftrightarrow> x = NaN"
  by (cases x) simp_all

section \<open>Classification\<close>

lemma classify_cases:
  "classify pw pt =
     (if pw = NaN \<or> pw = Fin 0 then Offline else if js_lt pw pt then Low else Normal)"
  by (simp add: classify_def js_seq_zero isNaN_iff)

lemma mkPanel_status:
  "panelStatus (fst (mkPanel J clk pt r s)) = classify (parseFloat J (fieldOf r ''power'')) pt"
  by (simp add: mkPanel_def Let_def split: prod.splits option.splits)

text \<open>
  C2. The status is offline exactly when the parsed power is not-a-number or equal to 0;
  otherwise it is low exactly when the power is less than the threshold; otherwise it is
  normal. It is the status of the panel built from the row. With the threshold 50, the
  powers 0 and NaN are offline, 49 is low and 50 is normal.
\<close>

theorem classify_status:
  "(classify pw pt = Offline \<longleftrightarrow> (isNaN pw \<or> pw = Fin 0))
   \<and> (classify pw pt = Low \<longleftrightarrow> (\<not> (isNaN pw \<or> pw = Fin 0) \<and> js_lt pw pt))
   \<and> (classify pw pt = Normal \<longleftrightarrow> (\<not> (isNaN pw \<or> pw = Fin 0) \<and> \<not> js_lt pw pt))
   \<and> panelStatus (fst (mkPanel J clk pt r s)) = classify (parseFloat J (fieldOf r ''power'')) pt
   \<and> classify (Fin 0) (Fin 50) = Offline
   \<and> classify NaN (Fin 50) = Offline
   \<and> classify (Fin 49) (Fin 50) = Low
   \<and> classify (Fin 50) (Fin 50) = Normal"
  by (simp add: classify_cases isNaN_iff mkPanel_status)

theorem classify_status_witness:
  "classify (Fin 30) (Fin 50) = Low \<and> js_lt (Fin 30) (Fin 50)
   \<and> panelStatus (fst (mkPanel exampleJs exampleClock (Fin 50)
        (mkRow ''PV001'' ''30'' ''220'' ''2024-01-02'') \<lparr>tempId = 0, reads = 0\<rparr>)) = Low"
  using classify_status [of "Fin 30" "Fin 50" exampleJs exampleClock
      "mkRow ''PV001'' ''30'' ''220'' ''2024-01-02''" "\<lparr>tempId = 0, reads = 0\<rparr>"]
  by (simp add: example_defs fieldOf_def)

section \<open>Saving a rule\<close>

text \<open>A save either is rejected, with the text for the operator and the state (the draft
  included) as it was, or is accepted, with no text and the form reset.\<close>

lemma saveRule_rejected_iff:
  "snd (saveRule J t st) = Some rejection \<longleftrightarrow>
     \<not> truthyVal (f_value (form st)) \<or> isNaN (parseFloatVal J (f_value (form st)))
       \<or> f_message (form st) = []"
  by (simp add: saveRule_def Let_def)

lemma saveRule_rejected_state:
  "snd (saveRule J t st) \<noteq> None \<Longrightarrow> saveRule J t st = (st, Some rejection)"
  by (simp add: saveRule_def Let_def split: if_splits)

lemma saveRule_accepted_form:
  "snd (saveRule J t st) = None \<Longrightarrow> form (fst (saveRule J t st)) = blankForm"
  by (simp add: saveRule_def Let_def split: if_splits)

text \<open>For a value typed into the form, a string, the save is rejected exactly when the
  string is empty or does not parse to a number, or the message is empty.\<close>

lemma saveRule_typed:
  "f_value (form st) = VStr v \<Longrightarrow>
     snd (saveRule J t st) = Some rejection \<longleftrightarrow>
       v = [] \<or> isNaN (parseFloat J v) \<or> f_message (form st) = []"
  by (simp add: saveRule_rejected_iff)

text \<open>
  C10. When \<open>editRule\<close> has filled the form from a rule whose value is the number 0, the
  form holds the number 0, and \<open>saveRule\<close> on that form is rejected: the operator is shown
  the text of the rejection and the state is the one before the call, whatever the message
  of the rule.
\<close>

theorem saveRule_rejects_edited_zero:
  "r_value r = Fin 0 \<Longrightarrow>
     f_value (form (editRule r st)) = VNum (Fin 0)
     \<and> saveRule J t (editRule r st) = (editRule r st, Some rejection)"
  by (simp add: saveRule_def editRule_def Let_def)

theorem saveRule_rejects_edited_zero_witness:
  "r_value zeroRule = Fin 0 \<and> message zeroRule \<noteq> []
   \<and> saveRule exampleJs 1782000000500 (editRule zeroRule (exampleApp\<lparr>rules := [zeroRule]\<rparr>))
       = (editRule zeroRule (exampleApp\<lparr>rules := [zeroRule]\<rparr>), Some rejection)"
  using saveRule_rejects_edited_zero
    [of zeroRule "exampleApp\<lparr>rules := [zeroRule]\<rparr>" exampleJs 1782000000500]
  by (simp add: zeroRule_def)

text \<open>
  C7, at the input where the code departs from it. The operator creates a rule with the
  value \<open>0\<close> typed into the form: the save succeeds and stores \<open>zeroRule\<close>. The operator
  then edits that rule and saves it unchanged: the threshold is the finite number 0 and
  the message is not empty, and the save is rejected.
\<close>

theorem saveRule_zero_created_then_not_resaved:
  "fst (saveRule exampleJs 1782000000000 typedZero) = exampleApp\<lparr>rules := [zeroRule]\<rparr>
   \<and> snd (saveRule exampleJs 1782000000000 typedZero) = None
   \<and> form (editRule zeroRule (exampleApp\<lparr>rules := [zeroRule]\<rparr>))
       = \<lparr>f_metric = ''power'', f_condition = ''='', f_value = VNum (Fin 0),
          f_severity = ''warning'', f_message = ''No output'', editId = Some 1782000000000\<rparr>
   \<and> saveRule exampleJs 1782000000500 (editRule zeroRule (exampleApp\<lparr>rules := [zeroRule]\<rparr>))
       = (editRule zeroRule (exampleApp\<lparr>rules := [zeroRule]\<rparr>), Some rejection)"
  by (simp add: saveRule_def editRule_def handleRuleChange_def typedZero_def zeroRule_def
      exampleApp_def exampleJs_def exampleParseFloat_def blankForm_def Let_def parseFloatNum_def)

theorem saveRule_zero_created_then_not_resaved_witness:
  "snd (saveRule exampleJs 1782000000500 (editRule zeroRule (exampleApp\<lparr>rules := [zeroRule]\<rparr>)))
     = Some rejection
   \<and> rules (fst (saveRule exampleJs 1782000000000 typedZero)) = [zeroRule]"
  using saveRule_zero_created_then_not_resaved by simp

text \<open>
  C6 fails as stated: a valid draft whose \<open>editId\<close> 42 is the id of no rule is saved, and
  the list of rules still holds the one rule it held; its length has not grown by one.
\<close>

theorem saveRule_unknown_editId_no_append:
  "rules (fst (saveRule exampleJs 1782000000500 orphanEdit)) = [zeroRule]
   \<and> length (rules (fst (saveRule exampleJs 1782000000500 orphanEdit)))
       \<noteq> length (rules orphanEdit) + 1"
  by (simp add: saveRule_def orphanEdit_def exampleApp_def exampleJs_def exampleParseFloat_def
      zeroRule_def Let_def parseFloatNum_def)

lemma map_replace_none:
  "\<forall>r \<in> set rs. \<not> idEq (r_id r) e \<Longrightarrow> map (\<lambda>r. if idEq (r_id r) e then n else r) rs = rs"
  by (induction rs) simp_all

text \<open>
  C6 as amended. For a valid draft whose \<open>editId\<close> is set and is the id of no rule, the
  save is accepted, the list of rules is left as it was (nothing is appended, nothing is
  replaced), and the form is reset.
\<close>

theorem saveRule_unknown_editId:
  assumes "truthyVal (f_value (form st))"
    and "\<not> isNaN (parseFloatVal J (f_value (form st)))"
    and "f_message (form st) \<noteq> []"
    and "truthyId (editId (form st))"
    and "\<forall>r \<in> set (rules st). \<not> idEq (r_id r) (editId (form st))"
  shows "saveRule J t st = (st\<lparr>form := blankForm\<rparr>, None)"
  using assms by (simp add: saveRule_def Let_def map_replace_none)

theorem saveRule_unknown_editId_witness:
  "truthyVal (f_value (form orphanEdit))
   \<and> \<not> isNaN (parseFloatVal exampleJs (f_value (form orphanEdit)))
   \<and> f_message (form orphanEdit) \<noteq> []
   \<and> truthyId (editId (form orphanEdit))
   \<and> editId (form orphanEdit) = Some 42
   \<and> map r_id (rules orphanEdit) = [1782000000000]
   \<and> saveRule exampleJs 1782000000500 orphanEdit = (orphanEdit\<lparr>form := blankForm\<rparr>, None)"
proof -
  have h: "truthyVal (f_value (form orphanEdit))"
    "\<not> isNaN (parseFloatVal exampleJs (f_value (form orphanEdit)))"
    "f_message (form orphanEdit) \<noteq> []"
    "truthyId (editId (form orphanEdit))"
    "\<forall>r \<in> set (rules orphanEdit). \<not> idEq (r_id r) (editId (form orphanEdit))"
    by (simp_all add: orphanEdit_def exampleApp_def exampleJs_def exampleParseFloat_def
        zeroRule_def)
  have "editId (form orphanEdit) = Some 42" "map r_id (rules orphanEdit) = [1782000000000]"
    by (simp_all add: orphanEdit_def zeroRule_def)
  with saveRule_unknown_editId [OF h, of 1782000000500] h show ?thesis by simp
qed

section \<open>Parsing the rows\<close>

lemma mapS_Cons:
  "mapS f (x # xs) s
     = (fst (f x s) # fst (mapS f xs (snd (f x s))), snd (mapS f xs (snd (f x s))))"
  by (simp add: Let_def split: prod.splits)

lemma mapS_list_all2:
  "(\<And>x s. R x (fst (f x s))) \<Longrightarrow> list_all2 R xs (fst (mapS f xs s))"
proof (induction xs arbitrary: s)
  case Nil
  show ?case by simp
next
  case (Cons x xs)
  have "R x (fst (f x s))" by (rule Cons.prems)
  moreover have "list_all2 R xs (fst (mapS f xs (snd (f x s))))"
    by (rule Cons.IH) (rule Cons.prems)
  ultimately show ?case by (simp add: mapS_Cons del: mapS.simps)
qed

lemma mapS_map_fst:
  "(\<And>x s. x \<in> set xs \<Longrightarrow> g (fst (f x s)) = h x) \<Longrightarrow> map g (fst (mapS f xs s)) = map h xs"
proof (induction xs arbitrary: s)
  case Nil
  show ?case by simp
next
  case (Cons x xs)
  have "map g (fst (mapS f xs (snd (f x s)))) = map h xs"
    by (rule Cons.IH) (simp add: Cons.prems)
  then show ?case by (simp add: mapS_Cons Cons.prems del: mapS.simps)
qed


lemma mkPanel_rowReading: "rowReading J clk pt r (fst (mkPanel J clk pt r s))"
  by (cases "parseFloat J (fieldOf r ''power'')"; cases "parseFloat J (fieldOf r ''voltage'')")
     (auto simp: rowReading_def mkPanel_def Let_def freshId_def currentDate_def
           split: prod.splits option.splits)

lemma panels_processData:
  "panels (processData J clk st data)
     = fst (parsedData J clk (powerThreshold st) data \<lparr>tempId = 0, reads = 0\<rparr>)"
  by (simp add: processData_def Let_def split: prod.splits)

lemma panels_rowReading:
  "list_all2 (rowReading J clk (powerThreshold st)) (filter validRow data)
     (panels (processData J clk st data))"
  unfolding panels_processData parsedData_def
  by (rule mapS_list_all2) (rule mkPanel_rowReading)

lemma validRow_present:
  "validRow r \<longleftrightarrow> present r ''id_panel'' \<and> present r ''power'' \<and> present r ''voltage''
     \<and> present r ''timestamp''"
  by (simp add: validRow_def truthyField_def present_def split: option.splits)

text \<open>
  C5. A row passes the filter exactly when its four columns \<open>id_panel\<close>, \<open>power\<close>,
  \<open>voltage\<close> and \<open>timestamp\<close> are present and non-empty. The readings that
  \<open>processData\<close> stores are, one for one and in the order of the input, the readings of
  the rows that pass: no such row is dropped or repeated, and a row that fails gives no
  reading and no error.
\<close>

theorem parsedData_rows:
  "(validRow r \<longleftrightarrow> present r ''id_panel'' \<and> present r ''power'' \<and> present r ''voltage''
       \<and> present r ''timestamp'')
   \<and> list_all2 (rowReading J clk (powerThreshold st)) (filter validRow data)
       (panels (processData J clk st data))
   \<and> length (panels (processData J clk st data)) = length (filter validRow data)"
proof -
  have "list_all2 (rowReading J clk (powerThreshold st)) (filter validRow data)
       (panels (processData J clk st data))"
    by (rule panels_rowReading)
  then show ?thesis
    by (simp add: validRow_present list_all2_lengthD)
qed

theorem parsedData_rows_witness:
  "filter validRow mixedRows
     = [mkRow ''PV001'' ''0'' ''220'' ''2024-01-01'', mkRow ''PV004'' ''500'' ''150'' ''2024-01-03'']
   \<and> length (panels (processData exampleJs exampleClock exampleApp mixedRows)) = 2
   \<and> list_all2 (rowReading exampleJs exampleClock (Fin 50))
       [mkRow ''PV001'' ''0'' ''220'' ''2024-01-01'', mkRow ''PV004'' ''500'' ''150'' ''2024-01-03'']
       (panels (processData exampleJs exampleClock exampleApp mixedRows))"
proof -
  have f: "filter validRow mixedRows
     = [mkRow ''PV001'' ''0'' ''220'' ''2024-01-01'', mkRow ''PV004'' ''500'' ''150'' ''2024-01-03'']"
    by (simp add: mixedRows_def validRow_def truthyField_def mkRow_def)
  have t: "powerThreshold exampleApp = Fin 50" by (simp add: exampleApp_def)
  from parsedData_rows [of "mkRow ''PV001'' ''0'' ''220'' ''2024-01-01''" exampleJs exampleClock
      exampleApp mixedRows]
  show ?thesis unfolding f t by simp
qed

section \<open>Custom rules\<close>

lemma push_fields:
  "map alertFields (fst (push clk p msg sev acc))
     = map alertFields (fst acc) @ [(id_panel p, msg, sev, p_when p)]"
  by (simp add: push_def alertFields_def Let_def split: prod.splits)

lemma customRules_Cons:
  "customRules J clk (r # rs) p acc
     = customRules J clk rs p
         (if conditionMet r p then push clk p (ruleMessage J r) (severity r) acc else acc)"
  by (simp add: customRules_def)

lemma customRules_fields:
  "map alertFields (fst (customRules J clk rs p acc))
     = map alertFields (fst acc) @ map (ruleFields J p) (filter (\<lambda>r. conditionMet r p) rs)"
proof (induction rs arbitrary: acc)
  case Nil
  show ?case by (simp add: customRules_def)
next
  case (Cons r rs)
  show ?case
    unfolding customRules_Cons by (simp add: Cons.IH push_fields ruleFields_def)
qed

text \<open>
  C4. A rule matches a reading exactly when the compared value (the power for the metric
  \<open>power\<close>, the voltage otherwise) is less than the threshold for the condition \<open><\<close>,
  greater for \<open>>\<close>, or equal to it under \<open>===\<close> for \<open>=\<close>. The alerts of the rules for a
  reading are one alert per matching rule, in the order of the rules, each with the
  severity and the message of its rule, the panel id and the time of the reading; two
  rules that match give two alerts. The rule "power < 100" matches the power 50 and does
  not match the power 150.
\<close>

theorem conditionMet_rules:
  "(conditionMet r p \<longleftrightarrow>
      (condition r = ''<''
         \<and> js_lt (if metric r = ''power'' then powerOut p else voltage p) (r_value r))
      \<or> (condition r = ''>''
         \<and> js_gt (if metric r = ''power'' then powerOut p else voltage p) (r_value r))
      \<or> (condition r = ''=''
         \<and> js_seq (if metric r = ''power'' then powerOut p else voltage p) (r_value r)))
   \<and> map alertFields (fst (customRules J clk rs p ([], s)))
       = map (\<lambda>r. (id_panel p, ruleMessage J r, severity r, p_when p))
           (filter (\<lambda>r. conditionMet r p) rs)
   \<and> length (fst (customRules J clk rs p ([], s))) = length (filter (\<lambda>r. conditionMet r p) rs)
   \<and> conditionMet lowPowerRule (testPanel (Fin 50))
   \<and> \<not> conditionMet lowPowerRule (testPanel (Fin 150))"
proof -
  have a: "map alertFields (fst (customRules J clk rs p ([], s)))
       = map (\<lambda>r. (id_panel p, ruleMessage J r, severity r, p_when p))
           (filter (\<lambda>r. conditionMet r p) rs)"
    using customRules_fields [of J clk rs p "([], s)"] by (simp add: ruleFields_def)
  have "length (map alertFields (fst (customRules J clk rs p ([], s))))
      = length (filter (\<lambda>r. conditionMet r p) rs)"
    unfolding a by simp
  then have b: "length (fst (customRules J clk rs p ([], s)))
      = length (filter (\<lambda>r. conditionMet r p) rs)" by simp
  have c: "conditionMet lowPowerRule (testPanel (Fin 50))"
    "\<not> conditionMet lowPowerRule (testPanel (Fin 150))"
    by (simp_all add: conditionMet_def lowPowerRule_def testPanel_def parseFloatNum_def js_gt_def
        js_seq_def)
  have d: "conditionMet r p \<longleftrightarrow>
      (condition r = ''<''
         \<and> js_lt (if metric r = ''power'' then powerOut p else voltage p) (r_value r))
      \<or> (condition r = ''>''
         \<and> js_gt (if metric r = ''power'' then powerOut p else voltage p) (r_value r))
      \<or> (condition r = ''=''
         \<and> js_seq (if metric r = ''power'' then powerOut p else voltage p) (r_value r))"
    by (auto simp: conditionMet_def parseFloatNum_def Let_def)
  from a b c d show ?thesis by blast
qed

theorem conditionMet_rules_witness:
  "map alertFields (fst (customRules exampleJs exampleClock
       [lowPowerRule, highVoltageRule, lowPowerRule] (testPanel (Fin 50))
       ([], \<lparr>tempId = 0, reads = 0\<rparr>)))
     = [(''PV001'', ''Critical low power detected'', ''critical'', 1704067200000),
        (''PV001'', ''Critical low power detected'', ''critical'', 1704067200000)]
   \<and> conditionMet lowPowerRule (testPanel (Fin 50))
   \<and> \<not> conditionMet highVoltageRule (testPanel (Fin 50))"
proof -
  have c: "conditionMet lowPowerRule (testPanel (Fin 50))"
    "\<not> conditionMet highVoltageRule (testPanel (Fin 50))"
    by (simp_all add: conditionMet_def lowPowerRule_def highVoltageRule_def testPanel_def
        parseFloatNum_def js_gt_def js_seq_def)
  have m: "ruleMessage exampleJs lowPowerRule = ''Critical low power detected''"
    "severity lowPowerRule = ''critical''"
    by (simp_all add: ruleMessage_def lowPowerRule_def)
  have p: "id_panel (testPanel (Fin 50)) = ''PV001''" "p_when (testPanel (Fin 50)) = 1704067200000"
    by (simp_all add: testPanel_def)
  from conditionMet_rules [of lowPowerRule "testPanel (Fin 50)" exampleJs exampleClock
      "[lowPowerRule, highVoltageRule, lowPowerRule]" "\<lparr>tempId = 0, reads = 0\<rparr>"]
  show ?thesis by (simp add: c m p)
qed

section \<open>Statistics\<close>

lemma powerOutputs_baseline: "powerOutputs ps = baseline ps"
  by (simp add: powerOutputs_def baseline_def)

lemma stats_baseline:
  assumes "baseline ps = baseline qs"
  shows "meanPower J ps = meanPower J qs" and "stdDevPower J ps = stdDevPower J qs"
proof -
  have e: "powerOutputs ps = powerOutputs qs" by (simp add: powerOutputs_baseline assms)
  show m: "meanPower J ps = meanPower J qs" by (simp add: meanPower_def e)
  show "stdDevPower J ps = stdDevPower J qs" by (simp add: stdDevPower_def e m)
qed


lemma stdDev_pos_nonempty: "js_gt (stdDevPower J ps) (Fin 0) \<Longrightarrow> powerOutputs ps \<noteq> []"
  by (auto simp: stdDevPower_def js_gt_def)

subsection \<open>The anomaly alert\<close>


subsection \<open>The mean of a baseline of doubles is positive\<close>

lemma js_gt_zero: "js_gt x (Fin 0) \<longleftrightarrow> x = PosInf \<or> (\<exists>r. x = Fin r \<and> 0 < r)"
  by (cases x) (simp_all add: js_gt_def)

lemma le_above: "js_le (Fin c) v \<Longrightarrow> above c v"
  by (cases v) (auto simp: js_le_def js_seq_def above_def)

lemma above_pos: "0 < t \<Longrightarrow> above t m \<Longrightarrow> js_gt m (Fin 0)"
  by (auto simp: above_def js_gt_zero)

lemma rounded_above:
  assumes "doubleRounding J t N" and "k \<le> N" and "real k * t \<le> x"
  shows "above (real k * t) (rounded J x)"
proof -
  have "js_le (rounded J (real k * t)) (rounded J x)"
    using assms(1,3) by (simp add: doubleRounding_def)
  moreover have "rounded J (real k * t) = Fin (real k * t)"
    using assms(1,2) by (simp add: doubleRounding_def)
  ultimately show ?thesis by (simp add: le_above)
qed

lemma add_above:
  assumes r: "doubleRounding J t N" and k: "Suc k \<le> N"
    and a: "above (real k * t) acc" and x: "above t x"
  shows "above (real (Suc k) * t) (js_add J acc x)"
proof (cases "acc = PosInf \<or> x = PosInf")
  case True
  with a x show ?thesis by (auto simp: above_def)
next
  case False
  with a x obtain c d where f: "acc = Fin c" "real k * t \<le> c" "x = Fin d" "t \<le> d"
    by (auto simp: above_def)
  then have "real (Suc k) * t \<le> c + d" by (simp add: algebra_simps)
  from rounded_above [OF r k this] show ?thesis by (simp add: f)
qed

lemma foldl_above:
  assumes r: "doubleRounding J t N"
  shows "\<forall>x \<in> set xs. above t x \<Longrightarrow> above (real k * t) acc \<Longrightarrow> k + length xs \<le> N \<Longrightarrow>
     above (real (k + length xs) * t) (foldl (js_add J) acc xs)"
proof (induction xs arbitrary: acc k)
  case Nil
  then show ?case by simp
next
  case (Cons x xs)
  have s: "above (real (Suc k) * t) (js_add J acc x)"
    using Cons.prems by (intro add_above [OF r]) simp_all
  have "above (real (Suc k + length xs) * t) (foldl (js_add J) (js_add J acc x) xs)"
    using Cons.prems by (intro Cons.IH s) simp_all
  then show ?case by simp
qed

lemma div_above:
  assumes r: "doubleRounding J t N" and n: "0 < n" "n \<le> N"
    and s: "above (real n * t) s"
  shows "above t (js_div J s (Fin (real n)))"
proof (cases "s = PosInf")
  case True
  then show ?thesis by (simp add: above_def)
next
  case False
  with s obtain c where f: "s = Fin c" "real n * t \<le> c" by (auto simp: above_def)
  have "t \<le> c / real n" using n(1) f(2) by (simp add: pos_le_divide_eq mult.commute)
  then have "real (Suc 0) * t \<le> c / real n" by simp
  moreover have "Suc 0 \<le> N" using n by simp
  ultimately have "above (real (Suc 0) * t) (rounded J (c / real n))"
    by (intro rounded_above [OF r])
  then show ?thesis using n(1) by (simp add: f)
qed

lemma powerOutputs_above: "doublesFrom t ps \<Longrightarrow> \<forall>x \<in> set (powerOutputs ps). above t x"
  by (auto simp: powerOutputs_def doublesFrom_def above_def js_gt_zero)

lemma meanPower_pos:
  assumes r: "doubleRounding J t N" and d: "doublesFrom t ps" and l: "length ps \<le> N"
    and ne: "powerOutputs ps \<noteq> []"
  shows "js_gt (meanPower J ps) (Fin 0)"
proof -
  let ?xs = "powerOutputs ps"
  have "length ?xs \<le> length ps"
    unfolding powerOutputs_def
    using length_filter_le [of "\<lambda>val. \<not> isNaN val \<and> js_gt val (Fin 0)" "map powerOut ps"]
    by simp
  with ne l have n: "0 < length ?xs" "length ?xs \<le> N" by simp_all
  have "above (real (0 + length ?xs) * t) (foldl (js_add J) (Fin 0) ?xs)"
    using n by (intro foldl_above [OF r] powerOutputs_above [OF d]) (simp_all add: above_def)
  then have "above t (js_div J (foldl (js_add J) (Fin 0) ?xs) (Fin (real (length ?xs))))"
    using n by (intro div_above [OF r]) simp_all
  moreover have "0 < t" using r by (simp add: doubleRounding_def)
  ultimately have "js_gt (js_div J (foldl (js_add J) (Fin 0) ?xs) (Fin (real (length ?xs)))) (Fin 0)"
    by (intro above_pos)
  then show ?thesis using n by (simp add: meanPower_def)
qed

text \<open>So the test \<open>meanPower > 0\<close> of the code follows from \<open>stdDevPower > 0\<close>.\<close>

lemma anomalous_spec:
  assumes "doubleRounding J t N" and "doublesFrom t ps" and "length ps \<le> N"
  shows "anomalous J (meanPower J ps) (stdDevPower J ps) p
       = spec_anomalous J (meanPower J ps) (stdDevPower J ps) p"
  using meanPower_pos [OF assms] stdDev_pos_nonempty [of J ps]
  by (auto simp: anomalous_def spec_anomalous_def)

text \<open>The example environment rounds as required, with 1 for the least positive number.\<close>

lemma exampleJs_rounding: "doubleRounding exampleJs 1 N"
  by (simp add: doubleRounding_def exampleJs_def exampleRounded_def js_le_def js_seq_def
      le_less)

lemma statPanels_stats:
  "meanPower exampleJs statPanels = Fin 4" "stdDevPower exampleJs statPanels = Fin 1"
proof -
  show m: "meanPower exampleJs statPanels = Fin 4"
    by (simp add: meanPower_def powerOutputs_def statPanels_def testPanel_def js_gt_def
        exampleJs_def exampleRounded_def)
  show "stdDevPower exampleJs statPanels = Fin 1"
    unfolding stdDevPower_def m
    by (simp add: powerOutputs_def statPanels_def testPanel_def js_gt_def js_sub_def
        exampleJs_def exampleRounded_def)
qed



section \<open>The alerts of a batch\<close>

lemma defaultRules_fields:
  "map alertFields (fst (defaultRules J clk vt mean sd p acc))
     = map alertFields (fst acc)
       @ map (\<lambda>(msg, sev). (id_panel p, msg, sev, p_when p))
           (spec_statusAlerts J p @ spec_voltageAlerts J vt p
              @ spec_anomalyAlerts J (anomalous J mean sd p) p)"
  by (simp add: defaultRules_def Let_def push_fields spec_statusAlerts_def spec_voltageAlerts_def
      spec_anomalyAlerts_def)

lemma panelAlerts_fields:
  "map alertFields (fst (panelAlerts J clk rs vt mean sd p s)) = codeAlerts J rs vt mean sd p"
  by (simp add: panelAlerts_def customRules_fields defaultRules_fields codeAlerts_def
      spec_readingAlerts_def spec_ruleAlerts_def ruleFields_def)

lemma newAlerts_fst:
  "fst (newAlerts J clk rs vt ps s)
     = concat (fst (mapS (panelAlerts J clk rs vt (meanPower J ps) (stdDevPower J ps)) ps s))"
  by (simp add: newAlerts_def case_prod_beta)

lemma newAlerts_fields:
  "map alertFields (fst (newAlerts J clk rs vt ps s))
     = concat (map (codeAlerts J rs vt (meanPower J ps) (stdDevPower J ps)) ps)"
proof -
  have "map (map alertFields)
          (fst (mapS (panelAlerts J clk rs vt (meanPower J ps) (stdDevPower J ps)) ps s))
      = map (codeAlerts J rs vt (meanPower J ps) (stdDevPower J ps)) ps"
    by (rule mapS_map_fst) (rule panelAlerts_fields)
  then show ?thesis
    by (simp add: newAlerts_fst map_concat)
qed

lemma alerts_processData:
  "alerts (processData J clk st data)
     = fst (newAlerts J clk (rules st) (voltageThreshold st) (panels (processData J clk st data))
         (snd (parsedData J clk (powerThreshold st) data \<lparr>tempId = 0, reads = 0\<rparr>)))"
  by (simp add: processData_def Let_def split: prod.splits)

lemma alerts_fields_eq:
  "map alertFields (alerts (processData J clk st data))
     = concat (map (codeAlerts J (rules st) (voltageThreshold st)
         (meanPower J (panels (processData J clk st data)))
         (stdDevPower J (panels (processData J clk st data))))
       (panels (processData J clk st data)))"
  by (simp add: alerts_processData newAlerts_fields)

lemma codeAlerts_spec:
  assumes "doubleRounding J t N" and "doublesFrom t ps" and "length ps \<le> N"
  shows "codeAlerts J rs vt (meanPower J ps) (stdDevPower J ps)
       = (\<lambda>p. spec_readingAlerts J rs vt
                 (spec_anomalous J (meanPower J ps) (stdDevPower J ps) p) p)"
  by (rule ext) (simp add: codeAlerts_def anomalous_spec [OF assms])

text \<open>
  C1. The readings are those of the rows that pass the filter, in the order of the batch,
  and the alerts of the batch, ids apart, are the alerts of the first reading, then those
  of the second, and so on. The alerts of one reading come in the fixed order: the
  critical offline alert if its status is offline, else the warning for low power if its
  status is low; then the warning for low voltage whenever the voltage is below the
  threshold; then the warning for an anomaly if the reading is anomalous; then one alert
  per matching rule in the order of the rule list. Each carries the panel id and the time
  of its reading. Anomalous is the test of the code on the mean and the deviation that the
  code computes, for every rounding of the arithmetic; when the arithmetic rounds as
  doubles do and the powers are doubles, it is the two-sigma rule of the specification.
\<close>

theorem alerts_in_order:
  "map alertFields (alerts (processData J clk st data))
     = concat (map (\<lambda>p. spec_readingAlerts J (rules st) (voltageThreshold st)
         (anomalous J (meanPower J (panels (processData J clk st data)))
            (stdDevPower J (panels (processData J clk st data))) p) p)
       (panels (processData J clk st data)))
   \<and> list_all2 (rowReading J clk (powerThreshold st)) (filter validRow data)
       (panels (processData J clk st data))
   \<and> (doubleRounding J tiny N \<and> doublesFrom tiny (panels (processData J clk st data))
        \<and> length (panels (processData J clk st data)) \<le> N \<longrightarrow>
      map alertFields (alerts (processData J clk st data))
        = concat (map (\<lambda>p. spec_readingAlerts J (rules st) (voltageThreshold st)
            (spec_anomalous J (meanPower J (panels (processData J clk st data)))
               (stdDevPower J (panels (processData J clk st data))) p) p)
          (panels (processData J clk st data))))"
proof -
  let ?ps = "panels (processData J clk st data)"
  have a: "map alertFields (alerts (processData J clk st data))
     = concat (map (\<lambda>p. spec_readingAlerts J (rules st) (voltageThreshold st)
         (anomalous J (meanPower J ?ps) (stdDevPower J ?ps) p) p) ?ps)"
    using alerts_fields_eq [of J clk st data] by (simp add: codeAlerts_def [abs_def])
  have b: "map alertFields (alerts (processData J clk st data))
        = concat (map (\<lambda>p. spec_readingAlerts J (rules st) (voltageThreshold st)
            (spec_anomalous J (meanPower J ?ps) (stdDevPower J ?ps) p) p) ?ps)"
    if "doubleRounding J tiny N \<and> doublesFrom tiny ?ps \<and> length ?ps \<le> N"
  proof -
    from that have h: "doubleRounding J tiny N" "doublesFrom tiny ?ps" "length ?ps \<le> N"
      by simp_all
    show ?thesis
      unfolding alerts_fields_eq codeAlerts_spec [OF h] ..
  qed
  from a b panels_rowReading [of J clk st data] show ?thesis by blast
qed

lemma threeRows_panels:
  "panels (processData exampleJs exampleClock ruleApp threeRows)
     = [\<lparr>p_id = 1782000000000, id_panel = ''PV001'', powerOut = Fin 0, voltage = Fin 220,
          panelStatus = Offline, p_when = 1704067200000\<rparr>,
        \<lparr>p_id = 1782000000002, id_panel = ''PV002'', powerOut = Fin 3, voltage = Fin 150,
          panelStatus = Low, p_when = 1704153600000\<rparr>,
        \<lparr>p_id = 1782000000004, id_panel = ''PV003'', powerOut = Fin 5, voltage = Fin 220,
          panelStatus = Low, p_when = 1704240000000\<rparr>]"
  unfolding panels_processData
  by (simp add: threeRows_def ruleApp_def example_defs parsedData_def mkPanel_def freshId_def
      currentDate_def classify_def validRow_def truthyField_def fieldOf_def js_seq_def Let_def)

lemma threeRows_doubles:
  "doublesFrom 1 (panels (processData exampleJs exampleClock ruleApp threeRows))"
  "length (panels (processData exampleJs exampleClock ruleApp threeRows)) \<le> 10"
  unfolding threeRows_panels by (simp_all add: doublesFrom_def)

lemma threeRows_stats:
  "meanPower exampleJs (panels (processData exampleJs exampleClock ruleApp threeRows)) = Fin 4"
  "stdDevPower exampleJs (panels (processData exampleJs exampleClock ruleApp threeRows)) = Fin 1"
proof -
  let ?ps = "panels (processData exampleJs exampleClock ruleApp threeRows)"
  have b: "baseline ?ps = baseline statPanels"
    unfolding threeRows_panels by (simp add: baseline_def statPanels_def testPanel_def)
  show "meanPower exampleJs ?ps = Fin 4" "stdDevPower exampleJs ?ps = Fin 1"
    using stats_baseline [OF b, of exampleJs] by (simp_all add: statPanels_stats)
qed

lemma threeRows_alerts:
  "map alertFields (alerts (processData exampleJs exampleClock ruleApp threeRows))
     = [(''PV001'', ''Panel PV001 is offline: Potential theft detected'', ''critical'',
           1704067200000),
        (''PV001'', ''Anomaly in PV001: Power 0.00W deviates significantly'', ''warning'',
           1704067200000),
        (''PV001'', ''Critical low power detected'', ''critical'', 1704067200000),
        (''PV002'', ''Panel PV002 has low power: 3.00W'', ''warning'', 1704153600000),
        (''PV002'', ''Panel PV002 has low voltage: 150.00V'', ''warning'', 1704153600000),
        (''PV002'', ''Critical low power detected'', ''critical'', 1704153600000),
        (''PV003'', ''Panel PV003 has low power: 5.00W'', ''warning'', 1704240000000),
        (''PV003'', ''Critical low power detected'', ''critical'', 1704240000000)]"
proof -
  have r: "rules ruleApp = [lowPowerRule]" "voltageThreshold ruleApp = Fin 200"
    by (simp_all add: ruleApp_def exampleApp_def)
  show ?thesis
    unfolding alerts_fields_eq threeRows_stats r
    unfolding threeRows_panels
    by (simp add: codeAlerts_def spec_readingAlerts_def spec_statusAlerts_def
        spec_voltageAlerts_def spec_anomalyAlerts_def spec_ruleAlerts_def anomalous_def
        lowPowerRule_def conditionMet_def ruleMessage_def parseFloatNum_def js_gt_def js_seq_def
        js_sub_def offlineMessage_def lowPowerMessage_def lowVoltageMessage_def
        anomalyMessage_def exampleJs_def exampleToFixed2_def exampleRounded_def)
qed

theorem alerts_in_order_witness:
  "doubleRounding exampleJs 1 10
   \<and> doublesFrom 1 (panels (processData exampleJs exampleClock ruleApp threeRows))
   \<and> length (panels (processData exampleJs exampleClock ruleApp threeRows)) \<le> 10
   \<and> map alertFields (alerts (processData exampleJs exampleClock ruleApp threeRows))
     = [(''PV001'', ''Panel PV001 is offline: Potential theft detected'', ''critical'',
           1704067200000),
        (''PV001'', ''Anomaly in PV001: Power 0.00W deviates significantly'', ''warning'',
           1704067200000),
        (''PV001'', ''Critical low power detected'', ''critical'', 1704067200000),
        (''PV002'', ''Panel PV002 has low power: 3.00W'', ''warning'', 1704153600000),
        (''PV002'', ''Panel PV002 has low voltage: 150.00V'', ''warning'', 1704153600000),
        (''PV002'', ''Critical low power detected'', ''critical'', 1704153600000),
        (''PV003'', ''Panel PV003 has low power: 5.00W'', ''warning'', 1704240000000),
        (''PV003'', ''Critical low power detected'', ''critical'', 1704240000000)]"
proof -
  have r: "rules ruleApp = [lowPowerRule]" "voltageThreshold ruleApp = Fin 200"
    by (simp_all add: ruleApp_def exampleApp_def)
  have h: "doubleRounding exampleJs 1 10
     \<and> doublesFrom 1 (panels (processData exampleJs exampleClock ruleApp threeRows))
     \<and> length (panels (processData exampleJs exampleClock ruleApp threeRows)) \<le> 10"
    by (simp add: exampleJs_rounding threeRows_doubles)
  from alerts_in_order [of exampleJs exampleClock ruleApp threeRows 1 10,
      THEN conjunct2, THEN conjunct2] h
  have "map alertFields (alerts (processData exampleJs exampleClock ruleApp threeRows))
        = concat (map (\<lambda>p. spec_readingAlerts exampleJs (rules ruleApp) (voltageThreshold ruleApp)
            (spec_anomalous exampleJs
               (meanPower exampleJs (panels (processData exampleJs exampleClock ruleApp threeRows)))
               (stdDevPower exampleJs (panels (processData exampleJs exampleClock ruleApp threeRows)))
               p) p)
          (panels (processData exampleJs exampleClock ruleApp threeRows)))"
    by blast
  also have "\<dots> = [(''PV001'', ''Panel PV001 is offline: Potential theft detected'', ''critical'',
           1704067200000),
        (''PV001'', ''Anomaly in PV001: Power 0.00W deviates significantly'', ''warning'',
           1704067200000),
        (''PV001'', ''Critical low power detected'', ''critical'', 1704067200000),
        (''PV002'', ''Panel PV002 has low power: 3.00W'', ''warning'', 1704153600000),
        (''PV002'', ''Panel PV002 has low voltage: 150.00V'', ''warning'', 1704153600000),
        (''PV002'', ''Critical low power detected'', ''critical'', 1704153600000),
        (''PV003'', ''Panel PV003 has low power: 5.00W'', ''warning'', 1704240000000),
        (''PV003'', ''Critical low power detected'', ''critical'', 1704240000000)]"
    unfolding threeRows_stats r
    unfolding threeRows_panels
    by (simp add: spec_readingAlerts_def spec_statusAlerts_def
        spec_voltageAlerts_def spec_anomalyAlerts_def spec_ruleAlerts_def spec_anomalous_def
        lowPowerRule_def conditionMet_def ruleMessage_def parseFloatNum_def js_gt_def js_seq_def
        js_sub_def offlineMessage_def lowPowerMessage_def lowVoltageMessage_def
        anomalyMessage_def exampleJs_def exampleToFixed2_def exampleRounded_def)
  finally show ?thesis using h by simp
qed

section \<open>The ids of the alerts\<close>

lemma advance_0: "advance s 0 = s"
  by (simp add: advance_def)

lemma advance_add: "advance (advance s n) m = advance s (n + m)"
  by (simp add: advance_def add.assoc)

lemma idsFrom_Suc:
  "idsFrom clk s (Suc n) = idsFrom clk s n @ [clk (reads s + n) + int (tempId s + n)]"
  by (simp add: idsFrom_def)

lemma idsFrom_add: "idsFrom clk s (n + m) = idsFrom clk s n @ idsFrom clk (advance s n) m"
proof (induction m)
  case 0
  show ?case by (simp add: idsFrom_def)
next
  case (Suc m)
  have "idsFrom clk s (n + Suc m)
      = idsFrom clk s (n + m) @ [clk (reads s + (n + m)) + int (tempId s + (n + m))]"
    by (simp add: idsFrom_Suc)
  also have "\<dots> = idsFrom clk s n @ idsFrom clk (advance s n) (Suc m)"
    by (simp add: Suc.IH idsFrom_Suc advance_def add.assoc)
  finally show ?case .
qed

lemma numbered_start: "numbered clk s ([], s)"
  by (simp add: numbered_def idsFrom_def advance_0)

lemma numbered_push: "numbered clk s acc \<Longrightarrow> numbered clk s (push clk p msg sev acc)"
  by (simp add: numbered_def push_def freshId_def Let_def idsFrom_Suc advance_def)

lemma numbered_defaultRules:
  "numbered clk s acc \<Longrightarrow> numbered clk s (defaultRules J clk vt mean sd p acc)"
  by (simp add: defaultRules_def Let_def numbered_push)

lemma numbered_customRules:
  "numbered clk s acc \<Longrightarrow> numbered clk s (customRules J clk rs p acc)"
proof (induction rs arbitrary: acc)
  case Nil
  then show ?case by (simp add: customRules_def)
next
  case (Cons r rs)
  show ?case
    unfolding customRules_Cons by (rule Cons.IH) (simp add: Cons.prems numbered_push)
qed

lemma numbered_panelAlerts: "numbered clk s (panelAlerts J clk rs vt mean sd p s)"
  unfolding panelAlerts_def
  by (intro numbered_customRules numbered_defaultRules numbered_start)

lemma numbered_append:
  assumes "numbered clk s (as, s1)" and "numbered clk s1 (bs, s2)"
  shows "numbered clk s (as @ bs, s2)"
  using assms by (simp add: numbered_def idsFrom_add advance_add)

lemma numbered_mapS:
  "numbered clk s (concat (fst (mapS (panelAlerts J clk rs vt mean sd) ps s)),
                   snd (mapS (panelAlerts J clk rs vt mean sd) ps s))"
proof (induction ps arbitrary: s)
  case Nil
  show ?case by (simp add: numbered_start)
next
  case (Cons p ps)
  have a: "numbered clk s (fst (panelAlerts J clk rs vt mean sd p s),
                           snd (panelAlerts J clk rs vt mean sd p s))"
    using numbered_panelAlerts [of clk s J rs vt mean sd p] by simp
  show ?case
    by (simp add: mapS_Cons del: mapS.simps) (rule numbered_append [OF a Cons.IH])
qed

text \<open>With a clock that never goes back, the ids grow strictly.\<close>

lemma distinct_idsFrom:
  assumes "mono clk"
  shows "distinct (idsFrom clk s n)"
proof -
  have "inj_on (\<lambda>j. clk (reads s + j) + int (tempId s + j)) A" for A
  proof (rule inj_onI)
    fix j k
    assume eq: "clk (reads s + j) + int (tempId s + j) = clk (reads s + k) + int (tempId s + k)"
    show "j = k"
    proof (rule ccontr)
      assume "j \<noteq> k"
      then consider "j < k" | "k < j" by linarith
      then show False
      proof cases
        case 1
        then have "clk (reads s + j) \<le> clk (reads s + k)"
          using assms by (simp add: monoD)
        with 1 eq show False by simp
      next
        case 2
        then have "clk (reads s + k) \<le> clk (reads s + j)"
          using assms by (simp add: monoD)
        with 2 eq show False by simp
      qed
    qed
  qed
  then show ?thesis by (simp add: idsFrom_def distinct_map)
qed

text \<open>
  C9. When the clock does not go back during the call, the ids of the alerts that one
  call of \<open>processData\<close> generates are pairwise distinct, whatever the number of alerts
  of one reading.
\<close>

theorem alert_ids_distinct:
  "mono clk \<Longrightarrow> distinct (map a_id (alerts (processData J clk st data)))"
proof -
  assume m: "mono clk"
  let ?ps = "panels (processData J clk st data)"
  let ?s = "snd (parsedData J clk (powerThreshold st) data \<lparr>tempId = 0, reads = 0\<rparr>)"
  have "numbered clk ?s
      (concat (fst (mapS (panelAlerts J clk (rules st) (voltageThreshold st)
                 (meanPower J ?ps) (stdDevPower J ?ps)) ?ps ?s)),
       snd (mapS (panelAlerts J clk (rules st) (voltageThreshold st)
                 (meanPower J ?ps) (stdDevPower J ?ps)) ?ps ?s))"
    by (rule numbered_mapS)
  then have "map a_id (alerts (processData J clk st data))
      = idsFrom clk ?s (length (alerts (processData J clk st data)))"
    by (simp add: numbered_def alerts_processData newAlerts_fst)
  then show ?thesis by (simp add: distinct_idsFrom [OF m])
qed

theorem alert_ids_distinct_witness:
  "mono exampleClock
   \<and> length (alerts (processData exampleJs exampleClock ruleApp threeRows)) = 8
   \<and> distinct (map a_id (alerts (processData exampleJs exampleClock ruleApp threeRows)))"
proof -
  have m: "mono exampleClock" by (simp add: mono_def exampleClock_def)
  have "length (map alertFields (alerts (processData exampleJs exampleClock ruleApp threeRows)))
      = 8"
    unfolding threeRows_alerts by simp
  then have l: "length (alerts (processData exampleJs exampleClock ruleApp threeRows)) = 8"
    by simp
  from alert_ids_distinct [OF m, of exampleJs ruleApp threeRows] m l show ?thesis by simp
qed

section \<open>Running a batch twice\<close>
















end
